theory Spec2Isabelle
  imports Main "HOL-Library.Char_ord" "HOL-Library.List_Lexorder"
begin

section \<open>Strings\<close>

text \<open>
  A Python \<open>str\<close> is modelled as the list of its code points, on the range
  U+0000 .. U+00FF that the 8-bit \<^typ>\<open>char\<close> covers: \<open>length\<close> is Python's \<open>len\<close>,
  and the order of \<^typ>\<open>string\<close> (lexicographic on code points) is Python's order on
  \<open>str\<close>. The character classes below are Python's on that range.
\<close>

definition isspace :: "char \<Rightarrow> bool" where
  \<comment> \<open>\<open>str.isspace\<close>: TAB..CR, FS..US, SPACE, NEL (U+0085), NBSP (U+00A0)\<close>
  "isspace c =
     (let n = (of_char c :: nat)
      in (9 \<le> n \<and> n \<le> 13) \<or> (28 \<le> n \<and> n \<le> 32) \<or> n = 133 \<or> n = 160)"

definition is_digit :: "char \<Rightarrow> bool" where
  \<comment> \<open>the class \<open>\d\<close> of \<open>re\<close>: the decimal digits\<close>
  "is_digit c = (let n = (of_char c :: nat) in 48 \<le> n \<and> n \<le> 57)"

definition digit_val :: "char \<Rightarrow> int" where
  "digit_val c = int (of_char c - 48)"

definition int_of_digits :: "string \<Rightarrow> int" where
  \<comment> \<open>\<open>int(s)\<close> on a non-empty string of decimal digits (leading zeros allowed)\<close>
  "int_of_digits ds = foldl (\<lambda>a c. 10 * a + digit_val c) 0 ds"

fun split_acc :: "string \<Rightarrow> string \<Rightarrow> string list" where
  "split_acc w [] = (if w = [] then [] else [w])"
| "split_acc w (c # cs) =
     (if isspace c then (if w = [] then split_acc [] cs else w # split_acc [] cs)
      else split_acc (w @ [c]) cs)"

definition py_split :: "string \<Rightarrow> string list" where
  \<comment> \<open>\<open>s.split()\<close>: the maximal runs of characters that are not white space\<close>
  "py_split s = split_acc [] s"

fun join :: "string \<Rightarrow> string list \<Rightarrow> string" where
  \<comment> \<open>\<open>sep.join(xs)\<close>\<close>
  "join sep [] = []"
| "join sep [x] = x"
| "join sep (x # y # ys) = x @ sep @ join sep (y # ys)"

definition strip :: "string \<Rightarrow> string" where
  \<comment> \<open>\<open>s.strip()\<close>\<close>
  "strip s = rev (dropWhile isspace (rev (dropWhile isspace s)))"

definition norm_spaces :: "string \<Rightarrow> string" where
  "norm_spaces s = join '' '' (py_split s)"

section \<open>Exceptions\<close>

text \<open>
  An exception is known by the handler that takes it, by the name of its type and by
  its message. \<open>Timeout\<close> stands for \<open>requests.exceptions.Timeout\<close> and its subclasses,
  \<open>RequestException\<close> for the other subclasses of \<open>RequestException\<close>,
  \<open>OtherException\<close> for every other subclass of \<open>Exception\<close>.
\<close>

datatype exn_class = Timeout | RequestException | OtherException

datatype exn = Exn exn_class string string

section \<open>Numeric extractor\<close>

text \<open>
  \<^verbatim>\<open>
  def parse_int(s: str):
      s = s or ""
      s = s.replace(NBSP, " ").replace(" ", "")
      return int(re.sub(r"\D+", "", s)) if re.search(r"\d", s) else None
  \<close>
  (\<open>NBSP\<close> stands for the one-character literal U+00A0 of the source.)
  The argument is \<open>None\<close> or a string. The call returns \<open>None\<close> or an integer, or
  raises: \<open>int\<close> refuses a string of more than 4300 digits (leading zeros count)
  with a \<open>ValueError\<close>, the default limit of the interpreter on the conversion of a
  string to an integer.
\<close>

definition max_str_digits :: nat where
  \<comment> \<open>\<open>sys.get_int_max_str_digits()\<close>, which the program leaves at its default\<close>
  "max_str_digits = 4300"

fun decimal :: "nat \<Rightarrow> string" where
  \<comment> \<open>\<open>str(n)\<close>\<close>
  "decimal n =
     (if n < 10 then [''0123456789'' ! n] else decimal (n div 10) @ [''0123456789'' ! (n mod 10)])"

definition digits_value_error :: "nat \<Rightarrow> exn" where
  "digits_value_error n =
     Exn OtherException ''ValueError''
       (''Exceeds the limit (4300 digits) for integer string conversion: value has '' @
        decimal n @ '' digits; use sys.set_int_max_str_digits() to increase the limit'')"

definition py_int :: "string \<Rightarrow> exn + int" where
  \<comment> \<open>\<open>int(ds)\<close> on a non-empty string of decimal digits\<close>
  "py_int ds =
     (if max_str_digits < length ds then Inl (digits_value_error (length ds))
      else Inr (int_of_digits ds))"

definition parse_int :: "string option \<Rightarrow> exn + int option" where
  "parse_int s0 =
     (let s1 = (case s0 of None \<Rightarrow> [] | Some t \<Rightarrow> t);
          s2 = map (\<lambda>c. if c = CHR 0xA0 then CHR '' '' else c) s1;
          s3 = filter (\<lambda>c. c \<noteq> CHR '' '') s2
      in if list_ex is_digit s3
         then (case py_int (filter is_digit s3) of Inl e \<Rightarrow> Inl e | Inr n \<Rightarrow> Inr (Some n))
         else Inr None)"

section \<open>Document tree\<close>

text \<open>
  The parsed page (\<open>BeautifulSoup(html, "lxml")\<close>): a tree of elements and text
  strings. An element has a name, attributes and contents. The root of the tree is the
  document object itself; \<open>find_all\<close> searches below it. Comments, processing
  instructions and the strings of \<open>script\<close> and \<open>style\<close> elements, which
  \<open>get_text\<close> leaves out, are not part of the model.
\<close>

datatype node = Text string | Tag string "(string \<times> string) list" "node list"

fun tag_name :: "node \<Rightarrow> string" where
  "tag_name (Text s) = []"
| "tag_name (Tag n a cs) = n"

fun all_tags :: "node \<Rightarrow> node list" and all_tags_list :: "node list \<Rightarrow> node list" where
  \<comment> \<open>the elements of a subtree in document order (an element before its contents)\<close>
  "all_tags (Text s) = []"
| "all_tags (Tag n a cs) = Tag n a cs # all_tags_list cs"
| "all_tags_list [] = []"
| "all_tags_list (c # cs) = all_tags c @ all_tags_list cs"

fun all_strings :: "node \<Rightarrow> string list" and all_strings_list :: "node list \<Rightarrow> string list" where
  \<comment> \<open>the text strings of a subtree in document order\<close>
  "all_strings (Text s) = [s]"
| "all_strings (Tag n a cs) = all_strings_list cs"
| "all_strings_list [] = []"
| "all_strings_list (c # cs) = all_strings c @ all_strings_list cs"

fun descendant_tags :: "node \<Rightarrow> node list" where
  \<comment> \<open>\<open>soup.find_all(True)\<close>: every element below the node, in document order\<close>
  "descendant_tags (Text s) = []"
| "descendant_tags (Tag n a cs) = all_tags_list cs"

definition get_text :: "string \<Rightarrow> node \<Rightarrow> string" where
  \<comment> \<open>\<open>t.get_text(sep, strip=True)\<close>: the stripped, non-empty strings, joined\<close>
  "get_text sep t = join sep (filter (\<lambda>s. s \<noteq> []) (map strip (all_strings t)))"

section \<open>Section locator and bounded content collector\<close>

definition heading_names :: "string list" where
  "heading_names = [''h1'', ''h2'', ''h3'', ''h4'', ''h5'', ''h6'', ''strong'']"

definition is_heading :: "node \<Rightarrow> bool" where
  "is_heading t = (tag_name t \<in> set heading_names)"

text \<open>
  A compiled pattern is used through \<open>pat.search(txt)\<close> only: it is modelled as the
  predicate on strings that says whether the search finds a match.
\<close>

type_synonym pattern = "string \<Rightarrow> bool"

fun first_match :: "(node \<Rightarrow> bool) \<Rightarrow> node list \<Rightarrow> (node \<times> node list) option" where
  \<comment> \<open>the first element of a document-order list that satisfies the test, with the
      elements after it (\<open>tag.find_all_next()\<close>)\<close>
  "first_match P [] = None"
| "first_match P (t # ts) = (if P t then Some (t, ts) else first_match P ts)"

definition sum_len :: "string list \<Rightarrow> nat" where
  \<comment> \<open>\<open>sum(len(x) for x in chunks)\<close>\<close>
  "sum_len chunks = sum_list (map length chunks)"

text \<open>
  The loop over \<open>tag.find_all_next()\<close>, shared by the two collectors; they differ in
  the names of the content elements and in the text taken from one:
  \<^verbatim>\<open>
  for el in tag.find_all_next():
      if el == tag:
          continue
      if is_heading(el):
          break
      if el.name in [...]:
          ttxt = el.get_text(" ", strip=True)
          if ttxt:
              chunks.append(ttxt)
      if sum(len(x) for x in chunks) > max_chars:
          break
  \<close>
  \<open>el == tag\<close> compares name, attributes and contents, as equality of \<^typ>\<open>node\<close> does.
\<close>

fun collect_loop ::
  "string list \<Rightarrow> (node \<Rightarrow> string) \<Rightarrow> node \<Rightarrow> int \<Rightarrow> node list \<Rightarrow> string list \<Rightarrow> string list"
where
  "collect_loop names txt tag max_chars [] chunks = chunks"
| "collect_loop names txt tag max_chars (el # els) chunks =
     (if el = tag then collect_loop names txt tag max_chars els chunks
      else if is_heading el then chunks
      else
        let chunks' =
              (if tag_name el \<in> set names
               then (let ttxt = txt el in if ttxt \<noteq> [] then chunks @ [ttxt] else chunks)
               else chunks)
        in if int (sum_len chunks') > max_chars then chunks'
           else collect_loop names txt tag max_chars els chunks')"

definition after_heading_names :: "string list" where
  "after_heading_names = [''p'', ''li'', ''div'', ''span'', ''dd'']"

definition section_names :: "string list" where
  "section_names = [''p'', ''li'', ''div'', ''span'', ''dd'', ''td'', ''th'']"

definition after_heading_hit :: "pattern \<Rightarrow> node \<Rightarrow> bool" where
  \<comment> \<open>the test of \<open>soup.find_all\<close> in \<open>extract_text_after_heading\<close>\<close>
  "after_heading_hit pat t =
     (is_heading t \<and> get_text [] t \<noteq> [] \<and> pat (get_text '' '' t))"

definition after_heading_chunks :: "node \<Rightarrow> int \<Rightarrow> node list \<Rightarrow> string list" where
  "after_heading_chunks t max_chars els =
     collect_loop after_heading_names (\<lambda>el. norm_spaces (get_text '' '' el)) t max_chars els []"

definition extract_text_after_heading :: "node \<Rightarrow> pattern \<Rightarrow> int \<Rightarrow> string" where
  "extract_text_after_heading soup pat max_chars =
     (case first_match (after_heading_hit pat) (descendant_tags soup) of
        None \<Rightarrow> []
      | Some (t, els) \<Rightarrow> norm_spaces (join '' '' (after_heading_chunks t max_chars els)))"

definition heading_hit :: "pattern list \<Rightarrow> node \<Rightarrow> bool" where
  \<comment> \<open>the headings \<open>collect_section_text\<close> returns from: non-empty text, and
      \<open>any(p.search(txt) for p in pats)\<close>\<close>
  "heading_hit pats t =
     (is_heading t \<and> get_text [] t \<noteq> [] \<and> list_ex (\<lambda>p. p (get_text '' '' t)) pats)"

definition locate_heading :: "node \<Rightarrow> pattern list \<Rightarrow> (node \<times> node list) option" where
  \<comment> \<open>the search of \<open>collect_section_text\<close> for the first heading that matches\<close>
  "locate_heading soup pats = first_match (heading_hit pats) (descendant_tags soup)"

definition section_chunks :: "node \<Rightarrow> int \<Rightarrow> node list \<Rightarrow> string list" where
  "section_chunks tag max_chars els =
     collect_loop section_names (get_text '' '') tag max_chars els []"

definition collect_section_text :: "node \<Rightarrow> pattern list \<Rightarrow> int \<Rightarrow> string" where
  "collect_section_text soup pats max_chars =
     (case locate_heading soup pats of
        None \<Rightarrow> []
      | Some (tag, els) \<Rightarrow> norm_spaces (join '' '' (section_chunks tag max_chars els)))"

definition final_unit_len :: "string list \<Rightarrow> nat" where
  \<comment> \<open>the length of the unit appended last, 0 when none was\<close>
  "final_unit_len chunks = (case chunks of [] \<Rightarrow> 0 | _ \<Rightarrow> length (last chunks))"

fun contains :: "string \<Rightarrow> string \<Rightarrow> bool" where
  \<comment> \<open>\<open>sub in s\<close>\<close>
  "contains sub [] = (sub = [])"
| "contains sub (c # cs) = (take (length sub) (c # cs) = sub \<or> contains sub cs)"

subsection \<open>Example pages\<close>

definition page_flat :: node where
  \<comment> \<open>\<open><h2>Contact</h2><p>a</p><p>b</p>\<close>\<close>
  "page_flat = Tag ''[document]'' []
     [Tag ''h2'' [] [Text ''Contact''], Tag ''p'' [] [Text ''a''], Tag ''p'' [] [Text ''b'']]"

definition page_nested :: node where
  \<comment> \<open>\<open><h2>Contact</h2><div><p>a</p><h3>Suite</h3><p>b</p></div>\<close>\<close>
  "page_nested = Tag ''[document]'' []
     [Tag ''h2'' [] [Text ''Contact''],
      Tag ''div'' []
        [Tag ''p'' [] [Text ''a''], Tag ''h3'' [] [Text ''Suite''], Tag ''p'' [] [Text ''b'']]]"

definition page_repeated :: node where
  \<comment> \<open>\<open><h2>Contact</h2><p>x</p><h2>Contact</h2><p>y</p>\<close>\<close>
  "page_repeated = Tag ''[document]'' []
     [Tag ''h2'' [] [Text ''Contact''], Tag ''p'' [] [Text ''x''],
      Tag ''h2'' [] [Text ''Contact''], Tag ''p'' [] [Text ''y'']]"

section \<open>Email extractor\<close>

text \<open>
  \<^verbatim>\<open>EMAIL_RE = re.compile(r"[A-Z0-9._%+-]+@[A-Z0-9.-]+\.[A-Z]{2,}", re.I)\<close>
  and \<^verbatim>\<open>emails = sorted(set(re.findall(EMAIL_RE, text)))\<close>.

  A match that starts at a given place takes the longest run of characters of the
  first class, which the sign \<open>@\<close> must follow (a shorter run is followed by a
  character of the class). The second class takes the longest run too and gives
  characters back until a dot stands before two letters or more: the match ends with
  the last such dot of the run and all the letters behind it. With the flag \<open>re.I\<close>
  the letters are those of both cases. \<open>findall\<close> scans from left to right and
  resumes behind the end of a match.
\<close>

definition is_alpha :: "char \<Rightarrow> bool" where
  "is_alpha c =
     (let n = (of_char c :: nat) in (65 \<le> n \<and> n \<le> 90) \<or> (97 \<le> n \<and> n \<le> 122))"

definition local_char :: "char \<Rightarrow> bool" where
  "local_char c = (is_alpha c \<or> is_digit c \<or> c \<in> set ''._%+-'')"

definition domain_char :: "char \<Rightarrow> bool" where
  "domain_char c = (is_alpha c \<or> is_digit c \<or> c \<in> set ''.-'')"

fun last_dot :: "string \<Rightarrow> string \<Rightarrow> string option \<Rightarrow> string option" where
  \<comment> \<open>walks the run of the second class; \<open>pre\<close> is the part walked, \<open>best\<close> the match
      of \<open>[A-Z0-9.-]+\.[A-Z]{2,}\<close> that ends with the last dot found so far\<close>
  "last_dot pre [] best = best"
| "last_dot pre (c # cs) best =
     (if \<not> domain_char c then best
      else last_dot (pre @ [c]) cs
             (if c = CHR ''.'' \<and> pre \<noteq> [] \<and> 2 \<le> length (takeWhile is_alpha cs)
              then Some (pre @ [c] @ takeWhile is_alpha cs) else best))"

definition match_email :: "string \<Rightarrow> string option" where
  \<comment> \<open>the match of \<open>EMAIL_RE\<close> that starts at the head of the string\<close>
  "match_email s =
     (let loc = takeWhile local_char s in
      if loc = [] then None
      else (case dropWhile local_char s of
              [] \<Rightarrow> None
            | c # r \<Rightarrow> if c = CHR ''@''
                       then map_option (\<lambda>d. loc @ [c] @ d) (last_dot [] r None)
                       else None))"

fun findall_from :: "nat \<Rightarrow> string \<Rightarrow> string list" where
  \<comment> \<open>the scan of \<open>findall\<close>; the number counts the characters of the last match
      still to be passed over\<close>
  "findall_from n [] = []"
| "findall_from (Suc n) (c # cs) = findall_from n cs"
| "findall_from 0 (c # cs) =
     (case match_email (c # cs) of
        None \<Rightarrow> findall_from 0 cs
      | Some m \<Rightarrow> m # findall_from (length m - 1) cs)"

definition findall_email :: "string \<Rightarrow> string list" where
  "findall_email s = findall_from 0 s"

definition extract_emails :: "string \<Rightarrow> string list" where
  \<comment> \<open>\<open>sorted(set(...))\<close>: the distinct matches in increasing order\<close>
  "extract_emails s = sort (remdups (findall_email s))"

section \<open>More operations on strings\<close>

definition lower_char :: "char \<Rightarrow> char" where
  \<comment> \<open>\<open>str.lower\<close> on one character: A..Z and U+00C0..U+00DE (but U+00D7) have a
      lower-case form, 32 places up: the same character with the bit of weight 32 set\<close>
  "lower_char c =
     (let n = (of_char c :: nat)
      in if (65 \<le> n \<and> n \<le> 90) \<or> (192 \<le> n \<and> n \<le> 222 \<and> n \<noteq> 215)
         then (case c of Char b0 b1 b2 b3 b4 b5 b6 b7 \<Rightarrow> Char b0 b1 b2 b3 b4 True b6 b7)
         else c)"

definition lower :: "string \<Rightarrow> string" where
  "lower s = map lower_char s"

definition strip_chars :: "string \<Rightarrow> string \<Rightarrow> string" where
  \<comment> \<open>\<open>s.strip(chars)\<close>\<close>
  "strip_chars chars s =
     rev (dropWhile (\<lambda>c. c \<in> set chars) (rev (dropWhile (\<lambda>c. c \<in> set chars) s)))"

fun replace_from :: "nat \<Rightarrow> string \<Rightarrow> string \<Rightarrow> string \<Rightarrow> string" where
  \<comment> \<open>the scan of \<open>s.replace(old, new)\<close> for a non-empty \<open>old\<close>; the number counts the
      characters of the last occurrence still to be passed over\<close>
  "replace_from n old new [] = []"
| "replace_from (Suc n) old new (c # cs) = replace_from n old new cs"
| "replace_from 0 old new (c # cs) =
     (if take (length old) (c # cs) = old then new @ replace_from (length old - 1) old new cs
      else c # replace_from 0 old new cs)"

definition replace :: "string \<Rightarrow> string \<Rightarrow> string \<Rightarrow> string" where
  "replace old new s = replace_from 0 old new s"

definition is_linebreak :: "char \<Rightarrow> bool" where
  \<comment> \<open>the line boundaries of \<open>str.splitlines\<close>: LF, VT, FF, CR, FS, GS, RS, NEL\<close>
  "is_linebreak c =
     (let n = (of_char c :: nat) in (10 \<le> n \<and> n \<le> 13) \<or> (28 \<le> n \<and> n \<le> 30) \<or> n = 133)"

fun splitlines_acc :: "string \<Rightarrow> string \<Rightarrow> string list" where
  "splitlines_acc cur [] = (if cur = [] then [] else [cur])"
| "splitlines_acc cur [c] = (if is_linebreak c then [cur] else [cur @ [c]])"
| "splitlines_acc cur (c # d # cs) =
     (if c = CHR 0x0D \<and> d = CHR 0x0A then cur # splitlines_acc [] cs
      else if is_linebreak c then cur # splitlines_acc [] (d # cs)
      else splitlines_acc (cur @ [c]) (d # cs))"

definition splitlines :: "string \<Rightarrow> string list" where
  \<comment> \<open>\<open>s.splitlines()\<close>; CR LF is one boundary\<close>
  "splitlines s = splitlines_acc [] s"

section \<open>Values, exceptions and the world outside\<close>

text \<open>
  The values that a decoded JSON document and a cell of an output row hold. A JSON
  number is an integer here.
\<close>

datatype pyval =
    PNone | PBool bool | PInt int | PStr string | PList "pyval list"
  | PDict "(string \<times> pyval) list"

fun truthy :: "pyval \<Rightarrow> bool" where
  "truthy PNone = False"
| "truthy (PBool b) = b"
| "truthy (PInt n) = (n \<noteq> 0)"
| "truthy (PStr s) = (s \<noteq> [])"
| "truthy (PList xs) = (xs \<noteq> [])"
| "truthy (PDict kvs) = (kvs \<noteq> [])"

definition py_or :: "pyval \<Rightarrow> pyval \<Rightarrow> pyval" where
  \<comment> \<open>\<open>a or b\<close>\<close>
  "py_or a b = (if truthy a then a else b)"

fun type_name :: "pyval \<Rightarrow> string" where
  "type_name PNone = ''NoneType''"
| "type_name (PBool b) = ''bool''"
| "type_name (PInt n) = ''int''"
| "type_name (PStr s) = ''str''"
| "type_name (PList xs) = ''list''"
| "type_name (PDict kvs) = ''dict''"

definition attribute_error :: "pyval \<Rightarrow> string \<Rightarrow> exn" where
  "attribute_error v a =
     Exn OtherException ''AttributeError''
       ([CHR 0x27] @ type_name v @ [CHR 0x27] @ '' object has no attribute '' @
        [CHR 0x27] @ a @ [CHR 0x27])"

fun py_get :: "pyval \<Rightarrow> string \<Rightarrow> exn + pyval" where
  \<comment> \<open>\<open>v.get(k)\<close>\<close>
  "py_get (PDict kvs) k = Inr (case map_of kvs k of None \<Rightarrow> PNone | Some x \<Rightarrow> x)"
| "py_get v k = Inl (attribute_error v ''get'')"

fun py_first :: "pyval \<Rightarrow> exn + pyval" where
  \<comment> \<open>\<open>v[0]\<close>\<close>
  "py_first (PList (x # xs)) = Inr x"
| "py_first (PList []) = Inl (Exn OtherException ''IndexError'' ''list index out of range'')"
| "py_first (PStr (c # cs)) = Inr (PStr [c])"
| "py_first (PStr []) = Inl (Exn OtherException ''IndexError'' ''string index out of range'')"
| "py_first (PDict kvs) = Inl (Exn OtherException ''KeyError'' ''0'')"
| "py_first v =
     Inl (Exn OtherException ''TypeError''
       ([CHR 0x27] @ type_name v @ [CHR 0x27] @ '' object is not subscriptable''))"

type_synonym row = "string \<rightharpoonup> pyval"

record od_response =
  od_status :: int
  od_json :: "exn + pyval"

record page_response =
  status_code :: int
  content_type :: "string option"
  body_text :: string

text \<open>
  The regular expressions of \<open>parse_html_fields\<close>, by the line of the source that holds
  them. The regular-expression engine is outside the model: the world gives, for an
  expression and a text, whether \<open>re.search\<close> with the flag \<open>re.I\<close> finds a match,
  and the group 1 of the first match.
\<close>

datatype regex =
    Frais_heading \<comment> \<open>line 136\<close>
  | Par_annee \<comment> \<open>line 140\<close>
  | Boursiers \<comment> \<open>line 143\<close>
  | Langues_heading \<comment> \<open>line 149\<close>
  | Langue_vivante_1 \<comment> \<open>line 151\<close>
  | Langue_vivante_2 \<comment> \<open>line 153\<close>
  | Niveau_francais \<comment> \<open>line 155\<close>
  | Places \<comment> \<open>line 162\<close>
  | Voeux_confirmes \<comment> \<open>line 165\<close>
  | Candidats_postule \<comment> \<open>line 171\<close>
  | Candidats_proposition \<comment> \<open>line 173\<close>
  | Candidats_integrer \<comment> \<open>line 175\<close>
  | Criteres_1 \<comment> \<open>line 201\<close>
  | Criteres_2 \<comment> \<open>line 202\<close>
  | Chiffres_1 \<comment> \<open>line 208\<close>
  | Chiffres_2 \<comment> \<open>line 209\<close>
  | Chiffres_3 \<comment> \<open>line 210\<close>
  | Poursuites_1 \<comment> \<open>line 216\<close>
  | Poursuites_2 \<comment> \<open>line 217\<close>
  | Debouches_1 \<comment> \<open>line 223\<close>
  | Debouches_2 \<comment> \<open>line 224\<close>
  | Contacter_1 \<comment> \<open>line 230\<close>
  | Contacter_2 \<comment> \<open>line 231\<close>
  | Contacter_3 \<comment> \<open>line 232\<close>

text \<open>
  What a run finds outside the program: the query string of a URL as \<open>parse_qs\<close>
  reads it, the answers of the open-data service and of the site, the HTML parser,
  the regular-expression engine, the euro sign (U+20AC, outside the characters of the
  model), what \<open>pandas\<close> reads back as the column \<open>source_url\<close> of an output
  file that holds given rows, and whether \<open>wr.writerow\<close> raises on a row (a string
  that the encoding of the file refuses, a full disk). Each call either returns or
  raises.
\<close>

record world =
  query_of :: "string \<Rightarrow> exn + (string \<times> string list) list"
  od_get :: "string \<Rightarrow> exn + od_response"
  page_get :: "string \<Rightarrow> exn + page_response"
  soup_of :: "string \<Rightarrow> exn + node"
  re_found :: "regex \<Rightarrow> string \<Rightarrow> bool"
  re_group1 :: "regex \<Rightarrow> string \<Rightarrow> string option"
  euro_sign :: string
  csv_source_urls :: "row list \<Rightarrow> exn + string list"
  write_error :: "row \<Rightarrow> exn option"

section \<open>Identifier resolver and authoritative lookup\<close>

text \<open>
  \<^verbatim>\<open>
  def get_g_ta_cod(url):
      try:
          q = parse_qs(urlparse(url).query)
          vals = q.get("g_ta_cod") or q.get("g_ta_cod=")
          if vals:
              return str(vals[0]).strip()
      except Exception:
          pass
      return None
  \<close>
\<close>

definition get_g_ta_cod :: "world \<Rightarrow> string \<Rightarrow> string option" where
  "get_g_ta_cod w url =
     (case query_of w url of
        Inl e \<Rightarrow> None
      | Inr q \<Rightarrow>
          let vals = (case map_of q ''g_ta_cod'' of
                        None \<Rightarrow> map_of q ''g_ta_cod=''
                      | Some v \<Rightarrow> if v \<noteq> [] then Some v else map_of q ''g_ta_cod='')
          in (case vals of
                None \<Rightarrow> None
              | Some [] \<Rightarrow> None
              | Some (v # vs) \<Rightarrow> Some (strip v)))"

text \<open>
  \<^verbatim>\<open>
  def opendata_fetch(g_ta_cod, session):
      try:
          r = session.get(OD_API, params=params, timeout=20)
          if r.status_code == 200:
              out = r.json()
              recs = out.get("results") or []
              if recs:
                  return recs[0]
      except Exception:
          pass
      return {}
  \<close>
\<close>

definition opendata_fetch :: "world \<Rightarrow> string \<Rightarrow> pyval" where
  "opendata_fetch w g =
     (case od_get w g of
        Inl e \<Rightarrow> PDict []
      | Inr r \<Rightarrow>
          if od_status r = 200 then
            (case od_json r of
               Inl e \<Rightarrow> PDict []
             | Inr out \<Rightarrow>
                 (case py_get out ''results'' of
                    Inl e \<Rightarrow> PDict []
                  | Inr res \<Rightarrow>
                      let recs = py_or res (PList [])
                      in if truthy recs
                         then (case py_first recs of Inl e \<Rightarrow> PDict [] | Inr x \<Rightarrow> x)
                         else PDict []))
          else PDict [])"

section \<open>Field extraction from a page\<close>

definition frais_bloc :: "world \<Rightarrow> node \<Rightarrow> string \<Rightarrow> string" where
  \<comment> \<open>lines 136 to 138; the two literals end with e acute (U+00E9) and hold one\<close>
  "frais_bloc w soup txt =
     (let b = extract_text_after_heading soup (re_found w Frais_heading) 400
      in if b = []
         then join [CHR 0x0A]
                (filter (\<lambda>l. contains (''Frais de scolarit'' @ [CHR 0xE9]) l \<or>
                             contains (''Par ann'' @ [CHR 0xE9] @ ''e'') l)
                   (splitlines txt))
         else b)"

definition frais_annee :: "world \<Rightarrow> string \<Rightarrow> string" where
  \<comment> \<open>lines 139 to 142\<close>
  "frais_annee w bloc =
     (if bloc = [] then []
      else (case re_group1 w Par_annee bloc of
              None \<Rightarrow> []
            | Some g \<Rightarrow> norm_spaces (replace ''euros'' (euro_sign w) g)))"

definition frais_boursiers :: "world \<Rightarrow> string \<Rightarrow> string" where
  \<comment> \<open>lines 143 to 145\<close>
  "frais_boursiers w bloc =
     (if bloc = [] then []
      else (case re_group1 w Boursiers bloc of None \<Rightarrow> [] | Some g \<Rightarrow> norm_spaces g))"

definition langue :: "world \<Rightarrow> regex \<Rightarrow> string \<Rightarrow> string" where
  \<comment> \<open>lines 151 to 154\<close>
  "langue w r bloc =
     (if bloc = [] then []
      else (case re_group1 w r bloc of None \<Rightarrow> [] | Some g \<Rightarrow> strip_chars '' .;'' g))"

definition niveau_fr :: "world \<Rightarrow> string \<Rightarrow> string" where
  \<comment> \<open>lines 155 and 156\<close>
  "niveau_fr w bloc =
     (if bloc = [] then []
      else (case re_group1 w Niveau_francais bloc of None \<Rightarrow> [] | Some g \<Rightarrow> g))"

definition count_of :: "world \<Rightarrow> regex \<Rightarrow> string \<Rightarrow> exn + pyval" where
  \<comment> \<open>lines 159 to 176: \<open>None\<close>, or \<open>parse_int\<close> of the group 1 of the match, which
      may raise\<close>
  "count_of w r txt =
     (case re_group1 w r txt of
        None \<Rightarrow> Inr PNone
      | Some g \<Rightarrow>
          (case parse_int (Some g) of
             Inl e \<Rightarrow> Inl e
           | Inr None \<Rightarrow> Inr PNone
           | Inr (Some n) \<Rightarrow> Inr (PInt n)))"

fun attr :: "node \<Rightarrow> string \<Rightarrow> string option" where
  "attr (Text s) k = None"
| "attr (Tag n a cs) k = map_of a k"

fun link_loop :: "node list \<Rightarrow> string \<times> string \<Rightarrow> string \<times> string" where
  \<comment> \<open>lines 181 to 187, on \<open>(onisep_url, cat_url)\<close>\<close>
  "link_loop [] urls = urls"
| "link_loop (a # as) (onisep_url, cat_url) =
     (let href = (case attr a ''href'' of None \<Rightarrow> [] | Some h \<Rightarrow> h);
          label = lower (get_text '' '' a)
      in link_loop as
           (if contains ''onisep'' href \<or> contains ''onisep'' label then href else onisep_url,
            if contains ''catalogue'' label \<or> contains ''catalogue'' href \<or>
               contains ''formations.u-'' href
            then href else cat_url))"

definition links :: "node \<Rightarrow> string \<times> string" where
  \<comment> \<open>\<open>soup.find_all("a", href=True)\<close> and the loop over it\<close>
  "links soup =
     link_loop (filter (\<lambda>t. tag_name t = ''a'' \<and> attr t ''href'' \<noteq> None) (descendant_tags soup))
       ([], [])"

fun tag_string :: "node \<Rightarrow> string option" where
  \<comment> \<open>\<open>t.string\<close>: the string of an only child\<close>
  "tag_string (Text s) = Some s"
| "tag_string (Tag n a [c]) = tag_string c"
| "tag_string (Tag n a cs) = None"

definition titre_bloc :: "node \<Rightarrow> string" where
  \<comment> \<open>lines 193 to 195; \<open>soup.title\<close> is the first element named \<open>title\<close>\<close>
  "titre_bloc soup =
     (case filter (\<lambda>t. tag_name t = ''title'') (descendant_tags soup) of
        [] \<Rightarrow> []
      | t # ts \<Rightarrow> (case tag_string t of
                    None \<Rightarrow> []
                  | Some s \<Rightarrow> if s = [] then [] else norm_spaces s))"

definition html_fields :: "world \<Rightarrow> node \<Rightarrow> exn + (string \<times> pyval) list" where
  \<comment> \<open>the body of \<open>parse_html_fields\<close> behind the parse: the dictionary it returns, or
      the exception of the first \<open>parse_int\<close> that raises, in the order of the source\<close>
  "html_fields w soup =
     (let txt = get_text [CHR 0x0A] soup;
          bloc_frais = frais_bloc w soup txt;
          bloc_langues = extract_text_after_heading soup (re_found w Langues_heading) 400;
          emails = extract_emails txt
      in case count_of w Places txt of Inl e \<Rightarrow> Inl e | Inr places \<Rightarrow>
         case count_of w Voeux_confirmes txt of Inl e \<Rightarrow> Inl e | Inr voeux_confirmes \<Rightarrow>
         case count_of w Candidats_postule txt of Inl e \<Rightarrow> Inl e | Inr candidats_postules \<Rightarrow>
         case count_of w Candidats_proposition txt of Inl e \<Rightarrow> Inl e | Inr propositions \<Rightarrow>
         case count_of w Candidats_integrer txt of Inl e \<Rightarrow> Inl e | Inr integ \<Rightarrow>
         Inr
         [(''frais_annee'', PStr (frais_annee w bloc_frais)),
          (''frais_boursiers'', PStr (frais_boursiers w bloc_frais)),
          (''lv1'', PStr (langue w Langue_vivante_1 bloc_langues)),
          (''lv2'', PStr (langue w Langue_vivante_2 bloc_langues)),
          (''niveau_francais'', PStr (niveau_fr w bloc_langues)),
          (''places'', places),
          (''voeux_confirmes'', voeux_confirmes),
          (''candidats_postules'', candidats_postules),
          (''propositions'', propositions),
          (''integres'', integ),
          (''onisep_url'', PStr (fst (links soup))),
          (''catalogue_url'', PStr (snd (links soup))),
          (''emails_contact'', PStr (join '';'' emails)),
          (''criteres_analyse'',
             PStr (collect_section_text soup [re_found w Criteres_1, re_found w Criteres_2] 4000)),
          (''chiffres_acces'',
             PStr (collect_section_text soup
                     [re_found w Chiffres_1, re_found w Chiffres_2, re_found w Chiffres_3] 4000)),
          (''poursuites_etudes'',
             PStr (collect_section_text soup [re_found w Poursuites_1, re_found w Poursuites_2] 4000)),
          (''debouches'',
             PStr (collect_section_text soup [re_found w Debouches_1, re_found w Debouches_2] 4000)),
          (''contacter_etablissement'',
             PStr (collect_section_text soup
                     [re_found w Contacter_1, re_found w Contacter_2, re_found w Contacter_3] 4000)),
          (''titre_bloc'', PStr (titre_bloc soup))])"

definition parse_html_fields :: "world \<Rightarrow> string \<Rightarrow> exn + (string \<times> pyval) list" where
  "parse_html_fields w html =
     (case soup_of w html of Inl e \<Rightarrow> Inl e | Inr soup \<Rightarrow> html_fields w soup)"

definition html_keys :: "string list" where
  \<comment> \<open>the keys of the dictionary that \<open>parse_html_fields\<close> returns, in its order\<close>
  "html_keys =
     [''frais_annee'', ''frais_boursiers'', ''lv1'', ''lv2'', ''niveau_francais'', ''places'',
      ''voeux_confirmes'', ''candidats_postules'', ''propositions'', ''integres'',
      ''onisep_url'', ''catalogue_url'', ''emails_contact'', ''criteres_analyse'',
      ''chiffres_acces'', ''poursuites_etudes'', ''debouches'', ''contacter_etablissement'',
      ''titre_bloc'']"

section \<open>Harvest driver\<close>

definition fieldnames :: "string list" where
  "fieldnames =
     [''source_url'', ''g_ta_cod'',
      ''od_libelle_formation'', ''od_libelle_etablissement'', ''od_diplome'', ''od_secteur'',
      ''od_academie'', ''od_departement'', ''od_commune'', ''od_code_postal'', ''od_uai'',
      ''titre_bloc'', ''places'', ''voeux_confirmes'', ''candidats_postules'', ''propositions'',
      ''integres'', ''frais_annee'', ''frais_boursiers'', ''lv1'', ''lv2'', ''niveau_francais'',
      ''onisep_url'', ''catalogue_url'', ''emails_contact'', ''criteres_analyse'',
      ''chiffres_acces'', ''poursuites_etudes'', ''debouches'', ''contacter_etablissement'',
      ''http_status'', ''error'']"

definition fromkeys :: "string list \<Rightarrow> pyval \<Rightarrow> row" where
  \<comment> \<open>\<open>dict.fromkeys(keys, v)\<close>\<close>
  "fromkeys ks v = map_of (map (\<lambda>k. (k, v)) ks)"

fun assign_all :: "(string \<times> pyval) list \<Rightarrow> row \<Rightarrow> row" where
  \<comment> \<open>\<open>for k, v in items: row[k] = v\<close>\<close>
  "assign_all [] row = row"
| "assign_all ((k, v) # kvs) row = assign_all kvs (row(k \<mapsto> v))"

definition od_or :: "(string \<times> pyval) list \<Rightarrow> string list \<Rightarrow> pyval" where
  \<comment> \<open>\<open>od.get(k1) or od.get(k2) or ""\<close> on a dictionary\<close>
  "od_or kvs ks =
     foldr (\<lambda>k rest. py_or (case map_of kvs k of None \<Rightarrow> PNone | Some x \<Rightarrow> x) rest) ks (PStr [])"

definition od_columns :: "pyval \<Rightarrow> exn + (string \<times> pyval) list" where
  \<comment> \<open>lines 360 to 369: the nine assignments under \<open>if od:\<close>, or the exception that
      the first \<open>od.get\<close> raises on a value that is no dictionary\<close>
  "od_columns od =
     (if truthy od then
        (case od of
           PDict kvs \<Rightarrow>
             Inr [(''od_libelle_formation'', od_or kvs [''libelle_formation'', ''libelle_long'']),
                  (''od_libelle_etablissement'', od_or kvs [''libelle_etablissement'', ''etablissement'']),
                  (''od_diplome'', od_or kvs [''type_de_formation'', ''diplome'']),
                  (''od_secteur'', od_or kvs [''secteur'']),
                  (''od_academie'', od_or kvs [''academie'', ''nom_academie'']),
                  (''od_departement'', od_or kvs [''departement'', ''nom_departement'']),
                  (''od_commune'', od_or kvs [''commune'']),
                  (''od_code_postal'', od_or kvs [''code_postal'']),
                  (''od_uai'', od_or kvs [''uai''])]
         | _ \<Rightarrow> Inl (attribute_error od ''get''))
      else Inr [])"

definition is_html :: "page_response \<Rightarrow> bool" where
  \<comment> \<open>\<open>"text/html" in (r.headers.get("Content-Type","").lower())\<close>\<close>
  "is_html r =
     contains ''text/html'' (lower (case content_type r of None \<Rightarrow> [] | Some c \<Rightarrow> c))"

definition lookup :: "world \<Rightarrow> string \<Rightarrow> pyval" where
  \<comment> \<open>\<open>od = opendata_fetch(gid, session) if gid else {}\<close>\<close>
  "lookup w url =
     (case get_g_ta_cod w url of
        None \<Rightarrow> PDict []
      | Some g \<Rightarrow> if g \<noteq> [] then opendata_fetch w g else PDict [])"

text \<open>
  The body of the loop of \<open>main\<close> for one URL, lines 351 to 388, with its three
  handlers: the row that \<open>wr.writerow\<close> receives.
  \<^verbatim>\<open>
  row = dict.fromkeys(fieldnames, "")
  row["source_url"] = url
  try:
      gid = get_g_ta_cod(url)
      row["g_ta_cod"] = gid or ""
      od = opendata_fetch(gid, session) if gid else {}
      if od:
          row["od_libelle_formation"] = od.get("libelle_formation") or od.get("libelle_long") or ""
          ...
      try:
          r = session.get(url, timeout=25)
          row["http_status"] = r.status_code
          if r.status_code == 200 and "text/html" in (r.headers.get("Content-Type","").lower()):
              try:
                  parsed = parse_html_fields(r.text)
                  for k, v in parsed.items():
                      row[k] = v
              except Exception as e:
                  row["error"] = f"Parse error: {type(e).__name__}: {e}"
      except Timeout:
          row["error"] = "Timeout"
      except RequestException as e:
          row["error"] = f"HTTP error: {type(e).__name__}"
  except Exception as e:
      row["error"] = f"Erreur: {type(e).__name__}: {e}"
  \<close>
\<close>

definition process_url :: "world \<Rightarrow> string \<Rightarrow> row" where
  "process_url w url =
     (let row0 = (fromkeys fieldnames (PStr []))(''source_url'' \<mapsto> PStr url);
          row1 = row0(''g_ta_cod'' \<mapsto>
                   PStr (case get_g_ta_cod w url of None \<Rightarrow> [] | Some g \<Rightarrow> g))
      in case od_columns (lookup w url) of
           Inl (Exn c tn msg) \<Rightarrow> row1(''error'' \<mapsto> PStr (''Erreur: '' @ tn @ '': '' @ msg))
         | Inr cols \<Rightarrow>
             let row2 = assign_all cols row1
             in (case page_get w url of
                   Inl (Exn Timeout tn msg) \<Rightarrow> row2(''error'' \<mapsto> PStr ''Timeout'')
                 | Inl (Exn RequestException tn msg) \<Rightarrow>
                     row2(''error'' \<mapsto> PStr (''HTTP error: '' @ tn))
                 | Inl (Exn OtherException tn msg) \<Rightarrow>
                     row2(''error'' \<mapsto> PStr (''Erreur: '' @ tn @ '': '' @ msg))
                 | Inr r \<Rightarrow>
                     let row3 = row2(''http_status'' \<mapsto> PInt (status_code r))
                     in if status_code r = 200 \<and> is_html r
                        then (case parse_html_fields w (body_text r) of
                                Inl (Exn c tn msg) \<Rightarrow>
                                  row3(''error'' \<mapsto> PStr (''Parse error: '' @ tn @ '': '' @ msg))
                              | Inr parsed \<Rightarrow> assign_all parsed row3)
                        else row3))"




text \<open>
  \<open>main\<close> from line 280 on. \<open>cells\<close> is the column of URLs as strings
  (\<open>df[args.url_col].astype(str)\<close>); the output file is absent (\<open>None\<close>) or holds
  rows. The exits of \<open>main\<close> before line 280 (no input file, unreadable sheet, no such
  column) are not part of the model. The result is the output file after the run, or
  what ended the run.
  \<^verbatim>\<open>
  mode = "a" if args.resume and out_path.exists() else "w"
  done = set()
  if mode == "a":
      try:
          ex = pd.read_csv(out_path, usecols=["source_url"])
          done = set(ex["source_url"].astype(str))
      except Exception:
          pass
  \<close>
\<close>

definition append_mode :: "bool \<Rightarrow> row list option \<Rightarrow> bool" where
  \<comment> \<open>\<open>mode == "a"\<close>\<close>
  "append_mode resume file = (resume \<and> file \<noteq> None)"




definition source_url_of :: "row \<Rightarrow> string" where
  \<comment> \<open>the cell \<open>source_url\<close> of a row, as a string\<close>
  "source_url_of row = (case row ''source_url'' of Some (PStr u) \<Rightarrow> u | _ \<Rightarrow> [])"

definition od_sources :: "(string \<times> string list) list" where
  \<comment> \<open>lines 361 to 369: each column of the open-data record with the fields of the
      record it is taken from, in the order of the \<open>or\<close> chain\<close>
  "od_sources =
     [(''od_libelle_formation'', [''libelle_formation'', ''libelle_long'']),
      (''od_libelle_etablissement'', [''libelle_etablissement'', ''etablissement'']),
      (''od_diplome'', [''type_de_formation'', ''diplome'']),
      (''od_secteur'', [''secteur'']),
      (''od_academie'', [''academie'', ''nom_academie'']),
      (''od_departement'', [''departement'', ''nom_departement'']),
      (''od_commune'', [''commune'']),
      (''od_code_postal'', [''code_postal'']),
      (''od_uai'', [''uai''])]"

definition kept_keys :: "string list" where
  \<comment> \<open>the columns of a row that \<open>parse_html_fields\<close> has no key for\<close>
  "kept_keys =
     [''source_url'', ''g_ta_cod'',
      ''od_libelle_formation'', ''od_libelle_etablissement'', ''od_diplome'', ''od_secteur'',
      ''od_academie'', ''od_departement'', ''od_commune'', ''od_code_postal'', ''od_uai'',
      ''http_status'', ''error'']"

subsection \<open>Example worlds\<close>

definition example_record :: pyval where
  "example_record =
     PDict [(''libelle_formation'', PStr ''BUT Informatique''), (''libelle_long'', PStr ''BUT''),
            (''etablissement'', PStr ''IUT''), (''commune'', PStr ''Lyon''),
            (''code_postal'', PInt 69000)]"

definition example_world :: world where
  \<comment> \<open>every URL but the empty one carries the identifier 42, which the service knows;
      the empty URL is refused before any request, the site times out on one URL,
      answers 500 on another, a PDF on a third, and the page \<open>page_flat\<close> on every
      other; one regular expression matches, the others never do; the column read back
      from a file is the column written, and every row can be written\<close>
  "example_world =
     \<lparr> query_of = (\<lambda>u. if u = [] then Inr [] else Inr [(''g_ta_cod'', [''42''])]),
       od_get = (\<lambda>g. Inr \<lparr> od_status = 200,
                             od_json = Inr (PDict [(''results'', PList [example_record])]) \<rparr>),
       page_get = (\<lambda>u.
          if u = [] then Inl (Exn RequestException ''MissingSchema'' ''No scheme supplied'')
          else if u = ''http://t'' then Inl (Exn Timeout ''ReadTimeout'' ''timed out'')
          else if u = ''http://e''
            then Inr \<lparr> status_code = 500, content_type = Some ''text/html'',
                       body_text = ''Internal Server Error'' \<rparr>
          else if u = ''http://p''
            then Inr \<lparr> status_code = 200, content_type = Some ''application/pdf'',
                       body_text = ''%PDF'' \<rparr>
          else Inr \<lparr> status_code = 200, content_type = Some ''text/html; charset=UTF-8'',
                     body_text = ''<h2>Contact</h2><p>a</p><p>b</p>'' \<rparr>),
       soup_of = (\<lambda>h. Inr page_flat),
       re_found = (\<lambda>r s. r = Contacter_3 \<and> contains ''contact'' (lower s)),
       re_group1 = (\<lambda>r s. None),
       euro_sign = ''EUR'',
       csv_source_urls = (\<lambda>rows. Inr (map source_url_of rows)),
       write_error = (\<lambda>row. None) \<rparr>"


definition nan_world :: world where
  \<comment> \<open>the example world with the defaults of \<open>pandas.read_csv\<close> for an empty cell: it
      is read as a missing value, which \<open>astype(str)\<close> turns into the string \<open>nan\<close>\<close>
  "nan_world =
     example_world
       \<lparr> csv_source_urls := (\<lambda>rows.
            Inr (map (\<lambda>row. if source_url_of row = [] then ''nan'' else source_url_of row) rows)) \<rparr>"

section \<open>Properties of the numeric extractor\<close>

lemma is_digit_nbsp: "\<not> is_digit (CHR 0xA0)"
  by (simp add: is_digit_def)

lemma is_digit_space: "\<not> is_digit CHR '' ''"
  by (simp add: is_digit_def)

lemma filter_digits_despaced:
  "filter is_digit
     (filter (\<lambda>c. c \<noteq> CHR '' '')
        (map (\<lambda>c. if c = CHR 0xA0 then CHR '' '' else c) s)) =
   filter is_digit s"
proof (induction s)
  case Nil
  show ?case by simp
next
  case (Cons c s)
  show ?case
  proof (cases "c = CHR 0xA0")
    case True
    with Cons is_digit_nbsp show ?thesis by simp
  next
    case False
    with Cons is_digit_space show ?thesis by auto
  qed
qed

lemma list_ex_digit_filter: "list_ex is_digit s \<longleftrightarrow> filter is_digit s \<noteq> []"
  by (induction s) auto

lemma int_of_digits_snoc:
  "int_of_digits (ds @ [d]) = 10 * int_of_digits ds + digit_val d"
  by (simp add: int_of_digits_def)

lemma decimal_4301: "decimal 4301 = ''4301''"
  by (simp add: decimal.simps [of 4301] decimal.simps [of 430] decimal.simps [of 43]
      decimal.simps [of 4])

lemma filter_digit_replicate: "is_digit c \<Longrightarrow> filter is_digit (replicate n c) = replicate n c"
  by (induction n) simp_all

lemma parse_int_cases:
  "parse_int (Some s) =
     (if filter is_digit s = [] then Inr None
      else if length (filter is_digit s) \<le> 4300
           then Inr (Some (int_of_digits (filter is_digit s)))
           else Inl (digits_value_error (length (filter is_digit s))))"
proof -
  let ?s3 = "filter (\<lambda>c. c \<noteq> CHR '' '')
               (map (\<lambda>c. if c = CHR 0xA0 then CHR '' '' else c) s)"
  have f: "filter is_digit ?s3 = filter is_digit s"
    by (rule filter_digits_despaced)
  have "parse_int (Some s) =
      (if list_ex is_digit ?s3
       then (case py_int (filter is_digit ?s3) of Inl e \<Rightarrow> Inl e | Inr n \<Rightarrow> Inr (Some n))
       else Inr None)"
    by (simp only: parse_int_def Let_def option.case)
  also have "\<dots> =
      (if filter is_digit s \<noteq> []
       then (case py_int (filter is_digit s) of Inl e \<Rightarrow> Inl e | Inr n \<Rightarrow> Inr (Some n))
       else Inr None)"
    by (simp only: list_ex_digit_filter f)
  also have "\<dots> =
     (if filter is_digit s = [] then Inr None
      else if length (filter is_digit s) \<le> 4300
           then Inr (Some (int_of_digits (filter is_digit s)))
           else Inl (digits_value_error (length (filter is_digit s))))"
    by (simp add: py_int_def max_str_digits_def not_less)
  finally show ?thesis .
qed

text \<open>
  Claim C8, as stated, fails: on a string of 4301 digits \<open>parse_int\<close> returns neither
  a number nor \<open>None\<close>: the conversion raises \<open>ValueError\<close>.
\<close>

theorem parse_int_counterexample:
  "parse_int (Some (replicate 4301 (CHR ''1''))) =
     Inl (Exn OtherException ''ValueError''
       (''Exceeds the limit (4300 digits) for integer string conversion: value has 4301'' @
        '' digits; use sys.set_int_max_str_digits() to increase the limit''))"
proof -
  have d: "is_digit (CHR ''1'')" by (simp add: is_digit_def)
  have "filter is_digit (replicate 4301 (CHR ''1'')) = replicate 4301 (CHR ''1'')"
    using d by (rule filter_digit_replicate)
  then have "parse_int (Some (replicate 4301 (CHR ''1''))) = Inl (digits_value_error 4301)"
    by (simp add: parse_int_cases)
  then show ?thesis
    by (simp add: digits_value_error_def decimal_4301)
qed

text \<open>
  Claim C8, amended. \<open>parse_int\<close> drops every character that is not a decimal digit,
  ordinary and non-breaking spaces included. When no digit is left (or the argument
  is \<open>None\<close>) it returns \<open>None\<close>; when at most 4300 digits are left it returns the
  number they write in base ten; when more are left the conversion raises
  \<open>ValueError\<close>. It returns 1234 on \<open>"1 234"\<close>, on the same with U+00A0 for the
  space, and on \<open>"1234"\<close>.
\<close>

theorem parse_int_digits_only:
  "parse_int (Some s) =
     (if filter is_digit s = [] then Inr None
      else if length (filter is_digit s) \<le> 4300
           then Inr (Some (int_of_digits (filter is_digit s)))
           else Inl (digits_value_error (length (filter is_digit s))))
   \<and> parse_int None = Inr None
   \<and> int_of_digits [] = 0
   \<and> int_of_digits (ds @ [d]) = 10 * int_of_digits ds + digit_val d
   \<and> parse_int (Some ''1 234'') = Inr (Some 1234)
   \<and> parse_int (Some [CHR ''1'', CHR 0xA0, CHR ''2'', CHR ''3'', CHR ''4'']) = Inr (Some 1234)
   \<and> parse_int (Some ''1234'') = Inr (Some 1234)"
proof -
  have b: "parse_int None = Inr None"
    by (simp add: parse_int_def)
  have c: "int_of_digits [] = 0"
    by (simp add: int_of_digits_def)
  have e1: "parse_int (Some ''1 234'') = Inr (Some 1234)"
    by (simp add: parse_int_cases is_digit_def int_of_digits_def digit_val_def)
  have e2: "parse_int (Some [CHR ''1'', CHR 0xA0, CHR ''2'', CHR ''3'', CHR ''4''])
              = Inr (Some 1234)"
    by (simp add: parse_int_cases is_digit_def int_of_digits_def digit_val_def)
  have e3: "parse_int (Some ''1234'') = Inr (Some 1234)"
    by (simp add: parse_int_cases is_digit_def int_of_digits_def digit_val_def)
  from parse_int_cases b c int_of_digits_snoc e1 e2 e3 show ?thesis by blast
qed

section \<open>Properties of the section locator and the collector\<close>



lemma length_join_space: "length (join '' '' xs) = sum_len xs + (length xs - 1)"
  by (induction "'' ''" xs rule: join.induct) (simp_all add: sum_len_def)

lemma length_join_Cons: "length (join '' '' (x # xs)) \<le> length x + 1 + length (join '' '' xs)"
  by (cases xs) simp_all

lemma length_split_acc: "length (join '' '' (split_acc w s)) \<le> length w + length s"
proof (induction w s rule: split_acc.induct)
  case (1 w)
  show ?case by simp
next
  case (2 w c cs)
  show ?case
  proof (cases "isspace c")
    case sp: True
    show ?thesis
    proof (cases "w = []")
      case True
      with sp 2 show ?thesis by simp
    next
      case False
      have "length (join '' '' (w # split_acc [] cs)) \<le> length w + 1 + length (join '' '' (split_acc [] cs))"
        by (rule length_join_Cons)
      also have "\<dots> \<le> length w + 1 + length cs"
        using 2(2)[OF sp False] by simp
      finally show ?thesis using sp False by simp
    qed
  next
    case False
    with 2 show ?thesis by simp
  qed
qed

lemma length_norm_spaces: "length (norm_spaces s) \<le> length s"
  using length_split_acc [of "[]" s] by (simp add: norm_spaces_def py_split_def)

lemma collect_loop_budget:
  "int (sum_len chunks) \<le> max 0 m \<Longrightarrow>
   int (sum_len (collect_loop names txt tag m els chunks)) \<le>
     max 0 m + int (final_unit_len (collect_loop names txt tag m els chunks))"
proof (induction els arbitrary: chunks)
  case Nil
  then show ?case by simp
next
  case (Cons el els)
  show ?case
  proof (cases "el = tag")
    case True
    with Cons show ?thesis by simp
  next
    case ne: False
    show ?thesis
    proof (cases "is_heading el")
      case True
      with ne Cons.prems show ?thesis by simp
    next
      case nh: False
      define chunks' where "chunks' =
              (if tag_name el \<in> set names
               then (let ttxt = txt el in if ttxt \<noteq> [] then chunks @ [ttxt] else chunks)
               else chunks)"
      have step: "collect_loop names txt tag m (el # els) chunks =
          (if int (sum_len chunks') > m then chunks' else collect_loop names txt tag m els chunks')"
        using ne nh by (simp add: chunks'_def Let_def)
      have cases: "chunks' = chunks \<or> (\<exists>t. chunks' = chunks @ [t])"
        by (auto simp: chunks'_def Let_def)
      show ?thesis
      proof (cases "int (sum_len chunks') > m")
        case True
        from cases have "int (sum_len chunks') \<le> max 0 m + int (final_unit_len chunks')"
        proof
          assume "chunks' = chunks"
          with Cons.prems show ?thesis by simp
        next
          assume "\<exists>t. chunks' = chunks @ [t]"
          then obtain t where t: "chunks' = chunks @ [t]" by blast
          have "final_unit_len chunks' = length t"
            by (cases chunks) (simp_all add: t final_unit_len_def)
          moreover have "sum_len chunks' = sum_len chunks + length t"
            by (simp add: t sum_len_def)
          ultimately show ?thesis using Cons.prems by simp
        qed
        with True step show ?thesis by simp
      next
        case False
        then have "int (sum_len chunks') \<le> max 0 m" by simp
        from Cons.IH [OF this] False step show ?thesis by simp
      qed
    qed
  qed
qed

lemmas page_eval =
  collect_section_text_def extract_text_after_heading_def locate_heading_def heading_hit_def
  after_heading_hit_def is_heading_def heading_names_def get_text_def strip_def isspace_def
  section_chunks_def after_heading_chunks_def section_names_def after_heading_names_def
  sum_len_def norm_spaces_def py_split_def

text \<open>
  What the test for a heading in the loop does guarantee: every collected unit is the
  text of an element visited before the first heading-level element that differs from
  the matched heading.
\<close>

lemma collect_loop_boundary:
  "set (collect_loop names txt tag m els chunks) \<subseteq>
     set chunks \<union> txt ` set (takeWhile (\<lambda>el. el = tag \<or> \<not> is_heading el) els)"
proof (induction els arbitrary: chunks)
  case Nil
  show ?case by simp
next
  case (Cons el els)
  show ?case
  proof (cases "el = tag \<or> \<not> is_heading el")
    case False
    then show ?thesis by simp
  next
    case True
    have a: "set (collect_loop names txt tag m els chunks) \<subseteq>
        set chunks \<union> txt ` set (takeWhile (\<lambda>el. el = tag \<or> \<not> is_heading el) els)"
      by (rule Cons.IH)
    have b: "set (collect_loop names txt tag m els (chunks @ [txt el])) \<subseteq>
        set (chunks @ [txt el]) \<union> txt ` set (takeWhile (\<lambda>el. el = tag \<or> \<not> is_heading el) els)"
      by (rule Cons.IH)
    from True a b show ?thesis
      by (auto simp: Let_def)
  qed
qed



text \<open>
  Claim C3, as stated, fails: with budget 1 on the page \<open>page_flat\<close> the units
  \<open>a\<close> and \<open>b\<close> are collected and the result \<open>a b\<close> has length 3, more than the
  budget plus the length of the last unit, because the joining spaces are not counted
  by the test of the loop.
\<close>

theorem collector_budget_counterexample:
  "section_chunks (Tag ''h2'' [] [Text ''Contact'']) 1
       [Tag ''p'' [] [Text ''a''], Tag ''p'' [] [Text ''b'']] = [''a'', ''b'']
   \<and> collect_section_text page_flat [contains ''Contact''] 1 = ''a b''
   \<and> \<not> int (length (collect_section_text page_flat [contains ''Contact''] 1))
         \<le> 1 + int (length (last [''a'', ''b'']))"
  by (simp add: page_eval page_flat_def)

text \<open>
  Claim C3, amended. The lengths of the collected units (joining spaces not counted)
  add up to at most the budget (0 for a negative budget) plus the length of the unit
  appended last; the returned string is at most that sum plus one joining space for
  each unit after the first, and is empty when no heading matches.
\<close>

theorem collector_budget_bound:
  "int (sum_len (section_chunks tag m els)) \<le>
      max 0 m + int (final_unit_len (section_chunks tag m els))
   \<and> int (sum_len (after_heading_chunks tag m els)) \<le>
      max 0 m + int (final_unit_len (after_heading_chunks tag m els))
   \<and> length (collect_section_text soup pats m) \<le>
       (case locate_heading soup pats of None \<Rightarrow> 0
        | Some (tag', els') \<Rightarrow>
            sum_len (section_chunks tag' m els') + (length (section_chunks tag' m els') - 1))
   \<and> length (extract_text_after_heading soup pat m) \<le>
       (case first_match (after_heading_hit pat) (descendant_tags soup) of None \<Rightarrow> 0
        | Some (tag', els') \<Rightarrow>
            sum_len (after_heading_chunks tag' m els') +
            (length (after_heading_chunks tag' m els') - 1))"
proof -
  have a: "int (sum_len (section_chunks tag m els)) \<le>
      max 0 m + int (final_unit_len (section_chunks tag m els))"
    unfolding section_chunks_def by (rule collect_loop_budget) (simp add: sum_len_def)
  have b: "int (sum_len (after_heading_chunks tag m els)) \<le>
      max 0 m + int (final_unit_len (after_heading_chunks tag m els))"
    unfolding after_heading_chunks_def by (rule collect_loop_budget) (simp add: sum_len_def)
  have n: "length (norm_spaces (join '' '' xs)) \<le> sum_len xs + (length xs - 1)" for xs
    using length_norm_spaces [of "join '' '' xs"] by (simp add: length_join_space)
  have c: "length (collect_section_text soup pats m) \<le>
       (case locate_heading soup pats of None \<Rightarrow> 0
        | Some (tag', els') \<Rightarrow>
            sum_len (section_chunks tag' m els') + (length (section_chunks tag' m els') - 1))"
    using n by (simp add: collect_section_text_def split: option.split prod.split)
  have d: "length (extract_text_after_heading soup pat m) \<le>
       (case first_match (after_heading_hit pat) (descendant_tags soup) of None \<Rightarrow> 0
        | Some (tag', els') \<Rightarrow>
            sum_len (after_heading_chunks tag' m els') +
            (length (after_heading_chunks tag' m els') - 1))"
    using n by (simp add: extract_text_after_heading_def split: option.split prod.split)
  from a b c d show ?thesis by blast
qed

text \<open>
  Claim C2 at two concrete pages. On \<open>page_nested\<close> the heading \<open>Contact\<close> is
  followed by a \<open>div\<close> that holds the next heading \<open>Suite\<close> and a paragraph
  \<open>b\<close> after it: the text of the \<open>div\<close> is collected whole, so the result holds the
  text of the next heading and of the paragraph behind it. On \<open>page_repeated\<close> the
  next heading is equal to the matched one, is skipped by the test \<open>el == tag\<close>, and
  the paragraph \<open>y\<close> behind it is collected.
\<close>

theorem collector_crosses_next_heading:
  "locate_heading page_nested [contains ''Contact''] =
     Some (Tag ''h2'' [] [Text ''Contact''],
       [Tag ''div'' []
          [Tag ''p'' [] [Text ''a''], Tag ''h3'' [] [Text ''Suite''], Tag ''p'' [] [Text ''b'']],
        Tag ''p'' [] [Text ''a''], Tag ''h3'' [] [Text ''Suite''], Tag ''p'' [] [Text ''b'']])
   \<and> collect_section_text page_nested [contains ''Contact''] 4000 = ''a Suite b a''
   \<and> extract_text_after_heading page_nested (contains ''Contact'') 400 = ''a Suite b a''
   \<and> collect_section_text page_repeated [contains ''Contact''] 4000 = ''x y''
   \<and> extract_text_after_heading page_repeated (contains ''Contact'') 400 = ''x y''"
  by (simp add: page_eval page_nested_def page_repeated_def)


section \<open>Properties of the email extractor\<close>

lemmas email_eval = extract_emails_def findall_email_def match_email_def local_char_def
  domain_char_def is_alpha_def is_digit_def

text \<open>
  Claim C4, as stated, fails: on the text of the claim the extractor returns three
  addresses, \<open>A@EX.FR\<close> among them, and not the two the claim gives: the set that
  removes the duplicates compares the strings as they are.
\<close>

theorem extract_emails_counterexample:
  "extract_emails ''Contact: a@ex.fr, A@EX.FR, b@ex.org'' \<noteq> [''a@ex.fr'', ''b@ex.org'']"
  by (simp add: email_eval)

text \<open>
  Claim C4, amended. The extractor returns the matches of the address pattern (found
  without regard to case), each once (two matches that differ in case only are both
  kept), in increasing lexicographic order of code points; on the text of the claim it
  returns \<open>A@EX.FR\<close>, \<open>a@ex.fr\<close>, \<open>b@ex.org\<close>.
\<close>

theorem extract_emails_sorted_distinct:
  "sorted (extract_emails t) \<and> distinct (extract_emails t)
   \<and> set (extract_emails t) = set (findall_email t)
   \<and> findall_email ''Contact: a@ex.fr, A@EX.FR, b@ex.org'' =
       [''a@ex.fr'', ''A@EX.FR'', ''b@ex.org'']
   \<and> extract_emails ''Contact: a@ex.fr, A@EX.FR, b@ex.org'' =
       [''A@EX.FR'', ''a@ex.fr'', ''b@ex.org'']"
proof -
  have a: "sorted (extract_emails t) \<and> distinct (extract_emails t)
      \<and> set (extract_emails t) = set (findall_email t)"
    by (simp add: extract_emails_def)
  have b: "findall_email ''Contact: a@ex.fr, A@EX.FR, b@ex.org'' =
       [''a@ex.fr'', ''A@EX.FR'', ''b@ex.org'']"
    by (simp add: email_eval)
  have c: "extract_emails ''Contact: a@ex.fr, A@EX.FR, b@ex.org'' =
       [''A@EX.FR'', ''a@ex.fr'', ''b@ex.org'']"
    by (simp add: email_eval)
  from a b c show ?thesis by blast
qed

section \<open>Properties of the harvest driver\<close>

lemma assign_all_other: "k \<notin> fst ` set kvs \<Longrightarrow> assign_all kvs row k = row k"
  by (induction kvs arbitrary: row) auto

lemma assign_all_map_of:
  "distinct (map fst kvs) \<Longrightarrow> k \<in> fst ` set kvs \<Longrightarrow> assign_all kvs row k = map_of kvs k"
proof (induction kvs arbitrary: row)
  case Nil
  then show ?case by simp
next
  case (Cons kv kvs)
  obtain k' v' where kv: "kv = (k', v')" by (cases kv)
  show ?case
  proof (cases "k = k'")
    case True
    with Cons.prems kv have "k \<notin> fst ` set kvs" by auto
    then have "assign_all kvs (row(k' \<mapsto> v')) k = (row(k' \<mapsto> v')) k"
      by (rule assign_all_other)
    with True kv show ?thesis by simp
  next
    case False
    with Cons.prems kv have "distinct (map fst kvs)" "k \<in> fst ` set kvs" by auto
    then have "assign_all kvs (row(k' \<mapsto> v')) k = map_of kvs k"
      by (rule Cons.IH)
    with False kv show ?thesis by simp
  qed
qed


lemma distinct_html_keys: "distinct html_keys"
  by (simp add: html_keys_def)

lemma length_html_keys: "length html_keys = 19"
  by (simp add: html_keys_def)


lemma fieldnames_split: "set fieldnames = set kept_keys \<union> set html_keys"
  by (auto simp: fieldnames_def kept_keys_def html_keys_def)


lemma od_columns_keys:
  "od_columns od = Inr cols \<Longrightarrow> cols = [] \<or> map fst cols = map fst od_sources"
  by (auto simp: od_columns_def od_sources_def split: if_splits pyval.splits)

lemma od_keys_not_source:
  "od_columns od = Inr cols \<Longrightarrow>
     k \<in> {''source_url'', ''g_ta_cod'', ''http_status'', ''error''} \<union> set html_keys \<Longrightarrow>
     k \<notin> fst ` set cols"
proof -
  assume a: "od_columns od = Inr cols"
    and k: "k \<in> {''source_url'', ''g_ta_cod'', ''http_status'', ''error''} \<union> set html_keys"
  from k have "k \<notin> set (map fst od_sources)"
    by (auto simp: od_sources_def html_keys_def)
  moreover from od_columns_keys [OF a] have "set (map fst cols) \<subseteq> set (map fst od_sources)"
  proof
    assume "cols = []"
    then show ?thesis by simp
  next
    assume "map fst cols = map fst od_sources"
    then show ?thesis by (simp only: subset_refl)
  qed
  ultimately have "k \<notin> set (map fst cols)" by blast
  then show ?thesis by simp
qed














text \<open>
  A fetch that returns with a status other than 200, or with a content type that is
  not HTML, sets the status and nothing else; a fetch that times out sets the error
  \<open>Timeout\<close> and nothing else.
\<close>

lemma html_keys_empty_before:
  assumes "od_columns od = Inr cols" and "k \<in> set html_keys"
  shows "assign_all cols
           ((fromkeys fieldnames (PStr []))(''source_url'' \<mapsto> PStr u, ''g_ta_cod'' \<mapsto> PStr g)) k
         = Some (PStr [])"
proof -
  from assms have "k \<notin> fst ` set cols"
    by (intro od_keys_not_source) auto
  then have "assign_all cols
           ((fromkeys fieldnames (PStr []))(''source_url'' \<mapsto> PStr u, ''g_ta_cod'' \<mapsto> PStr g)) k
         = ((fromkeys fieldnames (PStr []))(''source_url'' \<mapsto> PStr u, ''g_ta_cod'' \<mapsto> PStr g)) k"
    by (rule assign_all_other)
  also from assms(2) have "\<dots> = Some (PStr [])"
    by (auto simp: html_keys_def fromkeys_def fieldnames_def)
  finally show ?thesis .
qed

lemma od_keep_error:
  assumes "od_columns od = Inr cols"
  shows "assign_all cols
           ((fromkeys fieldnames (PStr []))(''source_url'' \<mapsto> PStr u, ''g_ta_cod'' \<mapsto> PStr g)) ''error''
         = Some (PStr [])"
    and "assign_all cols
           ((fromkeys fieldnames (PStr []))(''source_url'' \<mapsto> PStr u, ''g_ta_cod'' \<mapsto> PStr g)) ''http_status''
         = Some (PStr [])"
proof -
  let ?row = "(fromkeys fieldnames (PStr []))(''source_url'' \<mapsto> PStr u, ''g_ta_cod'' \<mapsto> PStr g)"
  have e: "''error'' \<notin> fst ` set cols"
    by (rule od_keys_not_source [OF assms]) simp
  have h: "''http_status'' \<notin> fst ` set cols"
    by (rule od_keys_not_source [OF assms]) simp
  have "assign_all cols ?row ''error'' = ?row ''error''"
    using e by (rule assign_all_other)
  then show "assign_all cols ?row ''error'' = Some (PStr [])"
    by (simp add: fromkeys_def fieldnames_def)
  have "assign_all cols ?row ''http_status'' = ?row ''http_status''"
    using h by (rule assign_all_other)
  then show "assign_all cols ?row ''http_status'' = Some (PStr [])"
    by (simp add: fromkeys_def fieldnames_def)
qed

lemma process_url_not_parsed:
  assumes od: "od_columns (lookup w u) = Inr cols"
    and pg: "page_get w u = Inr r" and no: "\<not> (status_code r = 200 \<and> is_html r)"
  shows "process_url w u ''error'' = Some (PStr [])"
    and "process_url w u ''http_status'' = Some (PInt (status_code r))"
    and "\<forall>k \<in> set html_keys. process_url w u k = Some (PStr [])"
proof -
  let ?g = "case get_g_ta_cod w u of None \<Rightarrow> [] | Some g \<Rightarrow> g"
  let ?row2 = "assign_all cols
      ((fromkeys fieldnames (PStr []))(''source_url'' \<mapsto> PStr u, ''g_ta_cod'' \<mapsto> PStr ?g))"
  have p: "process_url w u = ?row2(''http_status'' \<mapsto> PInt (status_code r))"
  proof -
    from no have f: "(status_code r = 200 \<and> is_html r) = False" by simp
    show ?thesis
      by (simp only: process_url_def Let_def od pg sum.case f if_False)
  qed
  show "process_url w u ''error'' = Some (PStr [])"
    using od_keep_error(1) [OF od] by (simp add: p)
  show "process_url w u ''http_status'' = Some (PInt (status_code r))"
    by (simp add: p)
  show "\<forall>k \<in> set html_keys. process_url w u k = Some (PStr [])"
  proof
    fix k assume k: "k \<in> set html_keys"
    then have "k \<noteq> ''http_status''" by (auto simp: html_keys_def)
    with html_keys_empty_before [OF od k] show "process_url w u k = Some (PStr [])"
      by (simp add: p)
  qed
qed

lemma process_url_timeout:
  assumes od: "od_columns (lookup w u) = Inr cols"
    and pg: "page_get w u = Inl (Exn Timeout tn msg)"
  shows "process_url w u ''error'' = Some (PStr ''Timeout'')"
    and "process_url w u ''http_status'' = Some (PStr [])"
    and "\<forall>k \<in> set html_keys. process_url w u k = Some (PStr [])"
proof -
  let ?g = "case get_g_ta_cod w u of None \<Rightarrow> [] | Some g \<Rightarrow> g"
  let ?row2 = "assign_all cols
      ((fromkeys fieldnames (PStr []))(''source_url'' \<mapsto> PStr u, ''g_ta_cod'' \<mapsto> PStr ?g))"
  have p: "process_url w u = ?row2(''error'' \<mapsto> PStr ''Timeout'')"
    using od pg by (simp add: process_url_def Let_def)
  show "process_url w u ''error'' = Some (PStr ''Timeout'')"
    by (simp add: p)
  show "process_url w u ''http_status'' = Some (PStr [])"
    using od_keep_error(2) [OF od] by (simp add: p)
  show "\<forall>k \<in> set html_keys. process_url w u k = Some (PStr [])"
  proof
    fix k assume k: "k \<in> set html_keys"
    then have "k \<noteq> ''error''" by (auto simp: html_keys_def)
    with html_keys_empty_before [OF od k] show "process_url w u k = Some (PStr [])"
      by (simp add: p)
  qed
qed

lemma od_columns_dict:
  "kvs \<noteq> [] \<Longrightarrow>
     od_columns (PDict kvs) = Inr (map (\<lambda>(col, ks). (col, od_or kvs ks)) od_sources)"
  by (simp add: od_columns_def od_sources_def)

lemma example_lookup: "u \<noteq> [] \<Longrightarrow> lookup example_world u = example_record"
  by (simp add: lookup_def get_g_ta_cod_def opendata_fetch_def py_or_def example_world_def
      strip_def isspace_def)

lemma example_od_columns:
  "u \<noteq> [] \<Longrightarrow>
     od_columns (lookup example_world u) =
       Inr (map (\<lambda>(col, ks).
              (col, od_or [(''libelle_formation'', PStr ''BUT Informatique''),
                           (''libelle_long'', PStr ''BUT''), (''etablissement'', PStr ''IUT''),
                           (''commune'', PStr ''Lyon''), (''code_postal'', PInt 69000)] ks))
            od_sources)"
  by (simp only: example_lookup example_record_def od_columns_dict list.distinct
      not_False_eq_True)

text \<open>
  Claim C5 in the example world. The URL that times out has the error \<open>Timeout\<close>.
  The URL that answers 500 and the URL that answers a PDF have their status in
  \<open>http_status\<close> and an empty \<open>error\<close>: the content type is recorded nowhere.
\<close>

theorem status_500_and_non_html_leave_error_empty:
  "process_url example_world ''http://t'' ''error'' = Some (PStr ''Timeout'')
   \<and> process_url example_world ''http://e'' ''http_status'' = Some (PInt 500)
   \<and> process_url example_world ''http://e'' ''error'' = Some (PStr [])
   \<and> process_url example_world ''http://p'' ''http_status'' = Some (PInt 200)
   \<and> process_url example_world ''http://p'' ''error'' = Some (PStr [])"
proof -
  have t: "page_get example_world ''http://t'' = Inl (Exn Timeout ''ReadTimeout'' ''timed out'')"
    by (simp add: example_world_def)
  have e: "page_get example_world ''http://e'' =
      Inr \<lparr> status_code = 500, content_type = Some ''text/html'',
            body_text = ''Internal Server Error'' \<rparr>"
    by (simp add: example_world_def)
  have p: "page_get example_world ''http://p'' =
      Inr \<lparr> status_code = 200, content_type = Some ''application/pdf'', body_text = ''%PDF'' \<rparr>"
    by (simp add: example_world_def)
  have ne: "\<not> (status_code \<lparr> status_code = 500, content_type = Some ''text/html'',
            body_text = ''Internal Server Error'' \<rparr> = 200 \<and>
          is_html \<lparr> status_code = 500, content_type = Some ''text/html'',
            body_text = ''Internal Server Error'' \<rparr>)"
    by simp
  have np: "\<not> (status_code \<lparr> status_code = 200, content_type = Some ''application/pdf'',
            body_text = ''%PDF'' \<rparr> = 200 \<and>
          is_html \<lparr> status_code = 200, content_type = Some ''application/pdf'',
            body_text = ''%PDF'' \<rparr>)"
    by (simp add: is_html_def lower_def lower_char_def)
  have c1: "process_url example_world ''http://t'' ''error'' = Some (PStr ''Timeout'')"
    by (rule process_url_timeout(1) [OF example_od_columns t]) simp
  have c2: "process_url example_world ''http://e'' ''http_status'' = Some (PInt 500)"
    using process_url_not_parsed(2) [OF example_od_columns e ne] by simp
  have c3: "process_url example_world ''http://e'' ''error'' = Some (PStr [])"
    by (rule process_url_not_parsed(1) [OF example_od_columns e ne]) simp
  have c4: "process_url example_world ''http://p'' ''http_status'' = Some (PInt 200)"
    using process_url_not_parsed(2) [OF example_od_columns p np] by simp
  have c5: "process_url example_world ''http://p'' ''error'' = Some (PStr [])"
    by (rule process_url_not_parsed(1) [OF example_od_columns p np]) simp
  show ?thesis
    by (intro conjI) (rule c1 c2 c3 c4 c5)+
qed

end
